theory Spec2Isabelle
  imports Main "HOL-Library.Sublist"
begin

section \<open>JavaScript values of the parsed command line\<close>

text \<open>
  \<^verbatim>\<open>compileLib(args)\<close> calls \<^verbatim>\<open>mri(args)\<close>, an external parser, and only reads
  properties of the object it returns. A property is absent (\<^verbatim>\<open>undefined\<close>), a boolean,
  a number, a string, or a flat array of those when the flag is repeated. Numbers are
  restricted to integers here.
\<close>

datatype jsprim = PBool bool | PNum int | PStr string

datatype jsval = Undefined | Prim jsprim | Arr "jsprim list"

text \<open>JavaScript truthiness, as tested by \<^verbatim>\<open>if (x)\<close>, \<^verbatim>\<open>!x\<close> and \<^verbatim>\<open>x || y\<close>.\<close>

fun truthy :: "jsval \<Rightarrow> bool" where
  "truthy Undefined = False"
| "truthy (Prim (PBool b)) = b"
| "truthy (Prim (PNum n)) = (n \<noteq> 0)"
| "truthy (Prim (PStr s)) = (s \<noteq> [])"
| "truthy (Arr ps) = True"

definition js_or :: "jsval \<Rightarrow> jsval \<Rightarrow> jsval" where
  "js_or a b = (if truthy a then a else b)"

text \<open>Truthiness of a string that may be absent (an environment variable, a path).\<close>

definition truthy_str :: "string option \<Rightarrow> bool" where
  "truthy_str x = (case x of None \<Rightarrow> False | Some s \<Rightarrow> s \<noteq> [])"

text \<open>\<^verbatim>\<open>Array.prototype.join\<close> on an array of strings.\<close>

fun join :: "string \<Rightarrow> string list \<Rightarrow> string" where
  "join sep [] = []"
| "join sep [x] = x"
| "join sep (x # y # ys) = x @ sep @ join sep (y # ys)"

text \<open>Decimal rendering of a number, as string conversion in a template literal does.\<close>

definition digit :: "nat \<Rightarrow> char" where
  "digit d = ''0123456789'' ! d"

fun digits :: "nat \<Rightarrow> string" where
  "digits n = (if n < 10 then [digit n] else digits (n div 10) @ [digit (n mod 10)])"

declare digits.simps [simp del]

definition num_to_string :: "int \<Rightarrow> string" where
  "num_to_string n = (if n < 0 then ''-'' @ digits (nat (- n)) else digits (nat n))"

fun prim_to_string :: "jsprim \<Rightarrow> string" where
  "prim_to_string (PBool b) = (if b then ''true'' else ''false'')"
| "prim_to_string (PNum n) = num_to_string n"
| "prim_to_string (PStr s) = s"

fun to_string :: "jsval \<Rightarrow> string" where
  "to_string Undefined = ''undefined''"
| "to_string (Prim p) = prim_to_string p"
| "to_string (Arr ps) = join '','' (map prim_to_string ps)"

text \<open>
  \<^verbatim>\<open>String.prototype.toUpperCase\<close> on the ASCII letters; every other byte is kept.
\<close>

definition char_upper :: "char \<Rightarrow> char" where
  "char_upper c =
     (case map_of (zip ''abcdefghijklmnopqrstuvwxyz'' ''ABCDEFGHIJKLMNOPQRSTUVWXYZ'') c of
        Some u \<Rightarrow> u
      | None \<Rightarrow> c)"

definition toUpperCase :: "string \<Rightarrow> string" where
  "toUpperCase s = map char_upper s"

record parsed_args =
  parsed_help :: jsval
  parsed_h :: jsval
  parsed_version :: jsval
  parsed_flags :: jsval
  parsed_cuda :: jsval
  parsed_nocontrib :: jsval
  parsed_nobuild :: jsval
  parsed_jobs :: jsval
  parsed_j :: jsval
  parsed_dryrun :: jsval
  parsed_dry_run :: jsval


section \<open>The external builder and the platform\<close>

text \<open>
  \<^verbatim>\<open>OpencvModule\<close>, \<^verbatim>\<open>OpenCVBuildEnv\<close>, \<^verbatim>\<open>OpenCVBuildEnvParams\<close> and \<^verbatim>\<open>OpenCVBuilder\<close>
  come from the package \<^verbatim>\<open>@u4/opencv-build\<close>. Only the members read by
  \<^verbatim>\<open>compileLib.ts\<close> are kept; a member that may be missing is an option.
\<close>

record OpencvModule =
  opencvModule :: string
  libPath :: "string option"

record OpenCVBuildEnv =
  isAutoBuildDisabled :: bool
  opencvLibDir :: "string option"
  opencvInclude :: "string option"
  opencv4Include :: "string option"
  opencvVersion :: string

record OpenCVBuildEnvParams =
  autoBuildOpencvVersion :: jsval
  autoBuildFlags :: jsval
  autoBuildBuildCuda :: bool
  autoBuildWithoutContrib :: bool
  disableAutoBuild :: bool

text \<open>A thrown value: \<^verbatim>\<open>new Error(message)\<close>, or a system error of \<^verbatim>\<open>fs\<close> (code and path).\<close>

datatype error = Error string | SystemError string string

text \<open>
  The file system is the set of paths that exist. \<^verbatim>\<open>builder.install()\<close> changes it or
  rejects; \<^verbatim>\<open>builder.getLibs.getLibs()\<close> reads it.
\<close>

record OpenCVBuilder =
  builder_env :: OpenCVBuildEnv
  install :: "string set \<Rightarrow> error + string set"
  getLibs :: "string set \<Rightarrow> OpencvModule list"

text \<open>
  What the surrounding process fixes once: the result of \<^verbatim>\<open>isWin()\<close>, Node's
  \<^verbatim>\<open>path.resolve\<close>, the two \<^verbatim>\<open>picocolors\<close> wrappers, the constructor of the builder and
  the directory \<^verbatim>\<open>path.join(__dirname, '..')\<close>, already normalised.
\<close>

record platform =
  isWin :: bool
  path_resolve :: "string \<Rightarrow> string"
  pc_yellow :: "string \<Rightarrow> string"
  pc_green :: "string \<Rightarrow> string"
  new_OpenCVBuilder :: "OpenCVBuildEnvParams \<Rightarrow> error + OpenCVBuilder"
  cwd :: string

definition EOL :: "platform \<Rightarrow> string" where
  "EOL P = (if isWin P then [CHR 0x0D, CHR 0x0A] else [CHR 0x0A])"

definition path_sep :: "platform \<Rightarrow> string" where
  "path_sep P = (if isWin P then [CHR 0x5C] else ''/'')"

text \<open>\<^verbatim>\<open>path.join(dir, name)\<close> for a normalised directory and a plain file name.\<close>

definition path_join :: "platform \<Rightarrow> string \<Rightarrow> string \<Rightarrow> string" where
  "path_join P dir name = dir @ path_sep P @ name"


section \<open>The process state and effects\<close>

text \<open>The error object that \<^verbatim>\<open>child_process.exec\<close> hands to its callback.\<close>

record exec_error =
  err_name :: string
  err_message :: string
  err_code :: string

datatype event =
    ConsoleLog string
  | ConsoleLogError string exec_error
  | LogInfo string string "string list"
  | LogError string string

text \<open>
  The state that \<^verbatim>\<open>compileLib\<close> reads and writes: the existing files, \<^verbatim>\<open>process.env\<close>,
  the calls made on \<^verbatim>\<open>console.log\<close> and on the \<^verbatim>\<open>npmlog\<close> sink in their order, and the
  commands handed to \<^verbatim>\<open>child_process.exec\<close> with their working directory.
\<close>

record world =
  files :: "string set"
  process_env :: "string \<rightharpoonup> string"
  trace :: "event list"
  spawned :: "(string \<times> string) list"

text \<open>
  A computation returns a value or throws, and leaves the state it reached either way.
\<close>

type_synonym 'a io = "world \<Rightarrow> (error + 'a) \<times> world"

definition io_return :: "'a \<Rightarrow> 'a io" where
  "io_return x = (\<lambda>w. (Inr x, w))"

definition io_throw :: "error \<Rightarrow> 'a io" where
  "io_throw e = (\<lambda>w. (Inl e, w))"

definition io_bind :: "'a io \<Rightarrow> ('a \<Rightarrow> 'b io) \<Rightarrow> 'b io" where
  "io_bind m f = (\<lambda>w. case m w of (Inl e, w') \<Rightarrow> (Inl e, w') | (Inr x, w') \<Rightarrow> f x w')"

definition emit :: "event list \<Rightarrow> unit io" where
  "emit evs = (\<lambda>w. (Inr (), w\<lparr>trace := trace w @ evs\<rparr>))"

definition log_info :: "string \<Rightarrow> string \<Rightarrow> string list \<Rightarrow> unit io" where
  "log_info pre msg as = emit [LogInfo pre msg as]"

definition console_log :: "string \<Rightarrow> unit io" where
  "console_log s = emit [ConsoleLog s]"

definition getenv :: "string \<Rightarrow> string option io" where
  "getenv name = (\<lambda>w. (Inr (process_env w name), w))"

definition existsSync :: "string \<Rightarrow> bool io" where
  "existsSync p = (\<lambda>w. (Inr (p \<in> files w), w))"

text \<open>
  \<^verbatim>\<open>fs.copyFileSync\<close> and \<^verbatim>\<open>fs.unlinkSync\<close> throw when the file to read or to remove
  does not exist. Contents and permissions are not modelled.
\<close>

definition copyFileSync :: "string \<Rightarrow> string \<Rightarrow> unit io" where
  "copyFileSync src dst =
     (\<lambda>w. if src \<in> files w then (Inr (), w\<lparr>files := insert dst (files w)\<rparr>)
          else (Inl (SystemError ''ENOENT'' src), w))"

definition unlinkSync :: "string \<Rightarrow> unit io" where
  "unlinkSync p =
     (\<lambda>w. if p \<in> files w then (Inr (), w\<lparr>files := files w - {p}\<rparr>)
          else (Inl (SystemError ''ENOENT'' p), w))"


section \<open>Directories\<close>

text \<open>
  Modelled from the spec: \<^verbatim>\<open>resolvePath\<close> of \<^verbatim>\<open>../lib/commons\<close> is not among the sources.
  An absent or empty input gives the absent result, anything else the normalised
  absolute path. The source stores the result in \<^verbatim>\<open>string\<close> variables and tests it for
  truthiness only, so the absent result is the empty string here.
\<close>

definition resolvePath :: "platform \<Rightarrow> string option \<Rightarrow> string" where
  "resolvePath P x = (case x of None \<Rightarrow> [] | Some s \<Rightarrow> if s = [] then [] else path_resolve P s)"

definition defaultDir :: string where
  "defaultDir = ''/usr/local''"

definition defaultLibDir :: string where
  "defaultLibDir = defaultDir @ ''/lib''"

definition defaultIncludeDir :: string where
  "defaultIncludeDir = defaultDir @ ''/include''"

definition defaultIncludeDirOpenCV4 :: string where
  "defaultIncludeDirOpenCV4 = defaultIncludeDir @ ''/opencv4''"

definition getDefaultIncludeDirs :: "platform \<Rightarrow> string list io" where
  "getDefaultIncludeDirs P =
     io_bind (log_info ''install'' ''OPENCV_INCLUDE_DIR is not set, looking for default include dir'' [])
       (\<lambda>_. if isWin P
             then io_throw (Error ''OPENCV_INCLUDE_DIR has to be defined on windows when auto build is disabled'')
             else io_return [defaultIncludeDir, defaultIncludeDirOpenCV4])"

definition getDefaultLibDir :: "platform \<Rightarrow> string io" where
  "getDefaultLibDir P =
     io_bind (log_info ''install'' ''OPENCV_LIB_DIR is not set, looking for default lib dir'' [])
       (\<lambda>_. if isWin P
             then io_throw (Error ''OPENCV_LIB_DIR has to be defined on windows when auto build is disabled'')
             else io_return defaultLibDir)"

definition getLibDir :: "platform \<Rightarrow> OpenCVBuildEnv \<Rightarrow> string io" where
  "getLibDir P env =
     (if isAutoBuildDisabled env
      then io_bind (getenv ''OPENCV_LIB_DIR'')
             (\<lambda>v. let r = resolvePath P v in if r \<noteq> [] then io_return r else getDefaultLibDir P)
      else (let dir = resolvePath P (opencvLibDir env)
            in if dir = [] then io_throw (Error ''failed to resolve opencvLibDir path'')
               else io_return dir))"


section \<open>Flag derivation\<close>

definition getOPENCV4NODEJS_LIBRARIES :: "platform \<Rightarrow> string \<Rightarrow> OpencvModule list \<Rightarrow> string list io" where
  "getOPENCV4NODEJS_LIBRARIES P libDir libsFoundInDir =
     (let libs = (if isWin P
                  then map (\<lambda>lib. resolvePath P (libPath lib)) libsFoundInDir
                  else [''-L'' @ libDir]
                       @ map (\<lambda>lib. ''-lopencv_'' @ opencvModule lib) libsFoundInDir
                       @ [''-Wl,-rpath,'' @ libDir])
      in io_bind (log_info ''libs'' (EOL P @ ''Setting the following libs:'') [])
           (\<lambda>_. io_bind (emit (map (\<lambda>lib. LogInfo ''libs'' lib []) libs))
           (\<lambda>_. io_return libs)))"

definition getOPENCV4NODEJS_DEFINES :: "platform \<Rightarrow> OpencvModule list \<Rightarrow> string list io" where
  "getOPENCV4NODEJS_DEFINES P libsFoundInDir =
     (let defines = map (\<lambda>lib. ''OPENCV4NODEJS_FOUND_LIBRARY_'' @ toUpperCase (opencvModule lib))
                        libsFoundInDir
      in io_bind (log_info ''defines'' (EOL P @ ''Setting the following defines:'') [])
           (\<lambda>_. io_bind (emit (map (\<lambda>def. LogInfo ''defines'' (pc_yellow P def) []) defines))
           (\<lambda>_. io_return defines)))"

text \<open>
  The message of the first log call is a plain string in the source, not a template, so
  the placeholder is logged as it stands.
\<close>

definition getOPENCV4NODEJS_INCLUDES ::
    "platform \<Rightarrow> OpenCVBuildEnv \<Rightarrow> OpencvModule list \<Rightarrow> string list io" where
  "getOPENCV4NODEJS_INCLUDES P env libsFoundInDir =
     io_bind (getenv ''OPENCV_INCLUDE_DIR'')
       (\<lambda>v. let explicitIncludeDir = (if truthy_str v then resolvePath P v else [])
             in io_bind (if isAutoBuildDisabled env
                         then (if explicitIncludeDir \<noteq> [] then io_return [explicitIncludeDir]
                               else getDefaultIncludeDirs P)
                         else io_return [resolvePath P (opencvInclude env),
                                         resolvePath P (opencv4Include env)])
                  (\<lambda>includes.
                     io_bind (log_info ''install'' ''${EOL}setting the following includes:'' [])
                       (\<lambda>_. io_bind (emit (map (\<lambda>inc. LogInfo ''includes'' (pc_green P inc) []) includes))
                       (\<lambda>_. io_return includes))))"


section \<open>compileLib\<close>

text \<open>
  The body of \<^verbatim>\<open>compileLib\<close> is cut into its consecutive parts, each named after the
  variable it computes or the step it takes. The \<^verbatim>\<open>for ... in\<close> loop of lines 114 to 116
  runs over the index \<^verbatim>\<open>'0'\<close> of a one-element array, reads \<^verbatim>\<open>options['0']\<close>, which does
  not exist, and so does nothing.
\<close>

definition usage :: string where
  "usage = ''Usage: install [--version=<version>] [--dry-run] [--flags=<flags>] [--cuda] [--nocontrib] [--nobuild] build''"

definition compileLib_options :: "parsed_args \<Rightarrow> OpenCVBuildEnvParams" where
  "compileLib_options parsed =
     \<lparr>autoBuildOpencvVersion = parsed_version parsed,
      autoBuildFlags = parsed_flags parsed,
      autoBuildBuildCuda = truthy (parsed_cuda parsed),
      autoBuildWithoutContrib = truthy (parsed_nocontrib parsed),
      disableAutoBuild = truthy (parsed_nobuild parsed)\<rparr>"

definition compileLib_JOBS :: "parsed_args \<Rightarrow> jsval" where
  "compileLib_JOBS parsed =
     (let JOBS = Prim (PStr ''max'');
          JOBS = (if truthy (parsed_jobs parsed) then parsed_jobs parsed else JOBS);
          JOBS = (if truthy (parsed_j parsed) then parsed_j parsed else JOBS)
      in JOBS)"

definition compileLib_dryRun :: "parsed_args \<Rightarrow> jsval" where
  "compileLib_dryRun parsed = js_or (parsed_dryrun parsed) (parsed_dry_run parsed)"

definition builder_install :: "OpenCVBuilder \<Rightarrow> unit io" where
  "builder_install builder =
     (\<lambda>w. case install builder (files w) of
            Inl e \<Rightarrow> (Inl e, w)
          | Inr fs \<Rightarrow> (Inr (), w\<lparr>files := fs\<rparr>))"

definition builder_getLibs :: "OpenCVBuilder \<Rightarrow> OpencvModule list io" where
  "builder_getLibs builder = (\<lambda>w. (Inr (getLibs builder (files w)), w))"

definition str_of_opt :: "string option \<Rightarrow> string" where
  "str_of_opt x = (case x of None \<Rightarrow> ''undefined'' | Some s \<Rightarrow> s)"

text \<open>Lines 123 to 130: the library directory, after an install when it does not exist.\<close>

definition compileLib_libDir :: "platform \<Rightarrow> OpenCVBuilder \<Rightarrow> string io" where
  "compileLib_libDir P builder =
     io_bind (getLibDir P (builder_env builder))
       (\<lambda>libDir. io_bind (log_info ''install'' (''Using lib dir: '' @ libDir) [])
       (\<lambda>_. io_bind (existsSync libDir)
       (\<lambda>ex. io_bind (if \<not> ex then builder_install builder else io_return ())
       (\<lambda>_. io_bind (existsSync libDir)
       (\<lambda>ex'. if \<not> ex' then io_throw (Error (''library dir does not exist: '' @ libDir))
               else io_return libDir)))))"

text \<open>Lines 131 to 137: the modules of the builder that have a library path.\<close>

definition compileLib_libsFoundInDir ::
    "platform \<Rightarrow> OpenCVBuilder \<Rightarrow> string \<Rightarrow> OpencvModule list io" where
  "compileLib_libsFoundInDir P builder libDir =
     io_bind (builder_getLibs builder)
       (\<lambda>libsInDir.
          let libsFoundInDir = filter (\<lambda>lib. truthy_str (libPath lib)) libsInDir
          in if libsFoundInDir = []
             then io_throw (Error (''no OpenCV libraries found in lib dir: '' @ libDir))
             else io_bind (log_info ''install'' (EOL P @ ''Found the following libs:'') [])
                    (\<lambda>_. io_bind (emit (map (\<lambda>lib. LogInfo ''install''
                                                  (pc_yellow P ''%s'' @ '': '' @ pc_green P ''%s'')
                                                  [opencvModule lib, str_of_opt (libPath lib)])
                                             libsFoundInDir))
                    (\<lambda>_. io_return libsFoundInDir)))"

definition setenv :: "string \<Rightarrow> string \<Rightarrow> unit io" where
  "setenv name v = (\<lambda>w. (Inr (), w\<lparr>process_env := (process_env w)(name \<mapsto> v)\<rparr>))"

text \<open>Lines 138 to 143: the three joined variables, written to \<^verbatim>\<open>process.env\<close>.\<close>

definition compileLib_exports ::
    "platform \<Rightarrow> OpenCVBuilder \<Rightarrow> string \<Rightarrow> OpencvModule list \<Rightarrow> (string \<times> string \<times> string) io" where
  "compileLib_exports P builder libDir libsFoundInDir =
     io_bind (getOPENCV4NODEJS_DEFINES P libsFoundInDir)
       (\<lambda>defines. io_bind (getOPENCV4NODEJS_INCLUDES P (builder_env builder) libsFoundInDir)
       (\<lambda>includes. io_bind (getOPENCV4NODEJS_LIBRARIES P libDir libsFoundInDir)
       (\<lambda>libs.
          let OPENCV4NODEJS_DEFINES = join '';'' defines;
              OPENCV4NODEJS_INCLUDES = join '';'' includes;
              OPENCV4NODEJS_LIBRARIES = join '';'' libs
          in io_bind (setenv ''OPENCV4NODEJS_DEFINES'' OPENCV4NODEJS_DEFINES)
               (\<lambda>_. io_bind (setenv ''OPENCV4NODEJS_INCLUDES'' OPENCV4NODEJS_INCLUDES)
               (\<lambda>_. io_bind (setenv ''OPENCV4NODEJS_LIBRARIES'' OPENCV4NODEJS_LIBRARIES)
               (\<lambda>_. io_return (OPENCV4NODEJS_DEFINES, OPENCV4NODEJS_INCLUDES,
                                OPENCV4NODEJS_LIBRARIES)))))))"

text \<open>Lines 117 to 143: from the construction of the builder to the exported variables.\<close>

definition compileLib_prepare :: "platform \<Rightarrow> parsed_args \<Rightarrow> (string \<times> string \<times> string) io" where
  "compileLib_prepare P parsed =
     io_bind (\<lambda>w. (new_OpenCVBuilder P (compileLib_options parsed), w))
       (\<lambda>builder. io_bind (log_info ''install'' (''Using openCV '' @ pc_green P ''%s'')
                             [opencvVersion (builder_env builder)])
       (\<lambda>_. io_bind (compileLib_libDir P builder)
       (\<lambda>libDir. io_bind (compileLib_libsFoundInDir P builder libDir)
       (\<lambda>libsFoundInDir. compileLib_exports P builder libDir libsFoundInDir))))"

text \<open>Lines 145 to 149.\<close>

definition compileLib_flags :: "jsval \<Rightarrow> string io" where
  "compileLib_flags JOBS =
     io_bind (getenv ''BINDINGS_DEBUG'')
       (\<lambda>d. let flags = [];
                 flags = (if truthy_str d then flags @ '' --debug'' else flags);
                 flags = flags @ '' --jobs '' @ to_string JOBS
             in io_return flags)"

definition hidenGyp :: "platform \<Rightarrow> string" where
  "hidenGyp P = path_join P (cwd P) ''_binding.gyp''"

definition realGyp :: "platform \<Rightarrow> string" where
  "realGyp P = path_join P (cwd P) ''binding.gyp''"

text \<open>Lines 156 to 158.\<close>

definition compileLib_stage :: "platform \<Rightarrow> unit io" where
  "compileLib_stage P =
     io_bind (existsSync (hidenGyp P))
       (\<lambda>ex. if ex then copyFileSync (hidenGyp P) (realGyp P) else io_return ())"

definition nodegypCmd :: "string \<Rightarrow> string" where
  "nodegypCmd flags = ''node-gyp rebuild '' @ flags"

text \<open>
  \<^verbatim>\<open>child_process.exec\<close> starts the child and returns at once; its callback runs later.
  The pipes of the child's output to the parent's streams are not modelled.
\<close>

definition exec :: "string \<Rightarrow> string \<Rightarrow> unit io" where
  "exec cmd dir = (\<lambda>w. (Inr (), w\<lparr>spawned := spawned w @ [(cmd, dir)]\<rparr>))"

text \<open>Lines 166 to 186.\<close>

definition compileLib_run ::
    "platform \<Rightarrow> jsval \<Rightarrow> string \<times> string \<times> string \<Rightarrow> string \<Rightarrow> unit io" where
  "compileLib_run P dryRun vars cmd =
     (case vars of (OPENCV4NODEJS_DEFINES, OPENCV4NODEJS_INCLUDES, OPENCV4NODEJS_LIBRARIES) \<Rightarrow>
        if truthy dryRun
        then emit [ConsoleLog [],
                   ConsoleLog (''export OPENCV4NODEJS_DEFINES='' @ [CHR 0x22] @ OPENCV4NODEJS_DEFINES @ [CHR 0x22]),
                   ConsoleLog (''export OPENCV4NODEJS_INCLUDES='' @ [CHR 0x22] @ OPENCV4NODEJS_INCLUDES @ [CHR 0x22]),
                   ConsoleLog (''export OPENCV4NODEJS_LIBRARIES='' @ [CHR 0x22] @ OPENCV4NODEJS_LIBRARIES @ [CHR 0x22]),
                   ConsoleLog [],
                   ConsoleLog cmd,
                   ConsoleLog []]
        else exec cmd (cwd P))"

text \<open>Lines 175 to 183: the callback that \<^verbatim>\<open>exec\<close> calls when the child has completed.\<close>

definition exec_callback :: "platform \<Rightarrow> exec_error option \<Rightarrow> unit io" where
  "exec_callback P error =
     io_bind (unlinkSync (realGyp P))
       (\<lambda>_. case error of
               Some e \<Rightarrow>
                 emit [ConsoleLogError ''error: '' e,
                       LogError ''install''
                         (''install.ts failed and return '' @ err_name e @ '' '' @ err_message e
                          @ '' return code: '' @ err_code e)]
             | None \<Rightarrow> log_info ''install'' ''install.ts complet with no error'' [])"

text \<open>
  \<^verbatim>\<open>parsed\<close> is \<^verbatim>\<open>mri(args)\<close>, computed by the external parser and passed along with
  \<^verbatim>\<open>args\<close>.
\<close>

definition compileLib :: "platform \<Rightarrow> string list \<Rightarrow> parsed_args \<Rightarrow> unit io" where
  "compileLib P args parsed =
     (let JOBS = compileLib_JOBS parsed;
          dryRun = compileLib_dryRun parsed
      in if truthy (parsed_help parsed) \<or> truthy (parsed_h parsed) \<or> ''build'' \<notin> set args
         then console_log usage
         else io_bind (compileLib_prepare P parsed)
                (\<lambda>vars. io_bind (compileLib_flags JOBS)
                (\<lambda>flags. io_bind (compileLib_stage P)
                (\<lambda>_. let cmd = nodegypCmd flags
                      in io_bind (log_info ''install''
                                    (''Spawning in '' @ cwd P @ '' node gyp process: '' @ cmd) [])
                           (\<lambda>_. compileLib_run P dryRun vars cmd)))))"

text \<open>
  One invocation of the process. The promise of \<^verbatim>\<open>compileLib\<close> settles first. When a
  child was started, it runs (changing the files, ending with an error or without) and
  Node then calls the callback; an exception that leaves the callback is uncaught.
  The process ends with a non-zero status exactly when the result is an error.
\<close>

definition invocation ::
    "platform \<Rightarrow> string list \<Rightarrow> parsed_args \<Rightarrow> (string set \<Rightarrow> string set \<times> exec_error option)
       \<Rightarrow> unit io" where
  "invocation P args parsed child w =
     (case compileLib P args parsed w of
        (Inl e, w') \<Rightarrow> (Inl e, w')
      | (Inr u, w') \<Rightarrow>
          if spawned w' = spawned w then (Inr (), w')
          else (case child (files w') of
                  (fs, error) \<Rightarrow> exec_callback P error (w'\<lparr>files := fs\<rparr>)))"


section \<open>Example inputs\<close>

definition mod_core :: OpencvModule where
  "mod_core = \<lparr>opencvModule = ''core'', libPath = Some ''/usr/local/lib/libopencv_core.so''\<rparr>"

definition mod_cudev :: OpencvModule where
  "mod_cudev = \<lparr>opencvModule = ''cudev'', libPath = None\<rparr>"

definition mod_imgproc :: OpencvModule where
  "mod_imgproc = \<lparr>opencvModule = ''imgproc'', libPath = Some ''/usr/local/lib/libopencv_imgproc.so''\<rparr>"

definition env_system :: OpenCVBuildEnv where
  "env_system = \<lparr>isAutoBuildDisabled = True, opencvLibDir = None, opencvInclude = None,
                  opencv4Include = None, opencvVersion = ''4.6.0''\<rparr>"

definition env_autobuild :: OpenCVBuildEnv where
  "env_autobuild = \<lparr>isAutoBuildDisabled = False, opencvLibDir = Some ''/b/lib'',
                     opencvInclude = Some ''/b/include'', opencv4Include = Some ''/b/include/opencv4'',
                     opencvVersion = ''4.6.0''\<rparr>"

definition env_unresolved :: OpenCVBuildEnv where
  "env_unresolved = \<lparr>isAutoBuildDisabled = False, opencvLibDir = None,
                      opencvInclude = None, opencv4Include = None, opencvVersion = ''4.6.0''\<rparr>"

definition builder_system :: OpenCVBuilder where
  "builder_system = \<lparr>builder_env = env_system, install = (\<lambda>fs. Inr fs),
                      getLibs = (\<lambda>fs. [mod_core, mod_cudev, mod_imgproc])\<rparr>"

definition builder_nolibs :: OpenCVBuilder where
  "builder_nolibs = \<lparr>builder_env = env_system, install = (\<lambda>fs. Inr fs),
                      getLibs = (\<lambda>fs. [mod_cudev])\<rparr>"

definition posix :: platform where
  "posix = \<lparr>isWin = False, path_resolve = (\<lambda>p. p), pc_yellow = (\<lambda>s. s), pc_green = (\<lambda>s. s),
             new_OpenCVBuilder = (\<lambda>opts. Inr builder_system), cwd = ''/pkg''\<rparr>"

definition windows :: platform where
  "windows = \<lparr>isWin = True, path_resolve = (\<lambda>p. p), pc_yellow = (\<lambda>s. s), pc_green = (\<lambda>s. s),
               new_OpenCVBuilder = (\<lambda>opts. Inr builder_system), cwd = ''C:/pkg''\<rparr>"

definition world0 :: world where
  "world0 = \<lparr>files = {''/usr/local/lib'', ''/pkg/_binding.gyp''}, process_env = Map.empty,
              trace = [], spawned = []\<rparr>"

definition world_nogyp :: world where
  "world_nogyp = \<lparr>files = {''/usr/local/lib''}, process_env = Map.empty,
                   trace = [], spawned = []\<rparr>"

definition parsed_none :: parsed_args where
  "parsed_none = \<lparr>parsed_help = Undefined, parsed_h = Undefined, parsed_version = Undefined,
                   parsed_flags = Undefined, parsed_cuda = Undefined, parsed_nocontrib = Undefined,
                   parsed_nobuild = Undefined, parsed_jobs = Undefined, parsed_j = Undefined,
                   parsed_dryrun = Undefined, parsed_dry_run = Undefined\<rparr>"

definition child_fails :: "string set \<Rightarrow> string set \<times> exec_error option" where
  "child_fails fs = (fs, Some \<lparr>err_name = ''Error'', err_message = ''Command failed'', err_code = ''1''\<rparr>)"

definition child_succeeds :: "string set \<Rightarrow> string set \<times> exec_error option" where
  "child_succeeds fs = (fs, None)"

definition world_env :: world where
  "world_env = \<lparr>files = {''/opt/lib'', ''/pkg/_binding.gyp''},
                 process_env = [''OPENCV_LIB_DIR'' \<mapsto> ''/opt/lib'',
                                ''OPENCV_INCLUDE_DIR'' \<mapsto> ''/opt/include''],
                 trace = [], spawned = []\<rparr>"

definition parsed_jobs0 :: parsed_args where
  "parsed_jobs0 = parsed_none\<lparr>parsed_jobs := Prim (PNum 0)\<rparr>"

definition parsed_dry :: parsed_args where
  "parsed_dry = parsed_none\<lparr>parsed_dry_run := Prim (PBool True), parsed_jobs := Prim (PNum 4)\<rparr>"


section \<open>Unfolding rules\<close>

lemmas io_defs = io_bind_def io_return_def io_throw_def emit_def log_info_def console_log_def
  getenv_def existsSync_def setenv_def copyFileSync_def unlinkSync_def exec_def
  builder_install_def builder_getLibs_def

lemmas default_dir_defs = defaultDir_def defaultLibDir_def defaultIncludeDir_def
  defaultIncludeDirOpenCV4_def

lemmas derive_defs = getDefaultIncludeDirs_def getDefaultLibDir_def getLibDir_def
  getOPENCV4NODEJS_LIBRARIES_def getOPENCV4NODEJS_DEFINES_def getOPENCV4NODEJS_INCLUDES_def
  resolvePath_def truthy_str_def toUpperCase_def char_upper_def str_of_opt_def

lemmas compileLib_defs = compileLib_def compileLib_options_def compileLib_JOBS_def
  compileLib_dryRun_def compileLib_libDir_def compileLib_libsFoundInDir_def
  compileLib_exports_def compileLib_prepare_def compileLib_flags_def compileLib_stage_def
  compileLib_run_def exec_callback_def invocation_def nodegypCmd_def hidenGyp_def realGyp_def
  path_join_def path_sep_def EOL_def js_or_def usage_def num_to_string_def digit_def Let_def

lemmas example_defs = mod_core_def mod_cudev_def mod_imgproc_def env_system_def
  env_autobuild_def env_unresolved_def builder_system_def builder_nolibs_def posix_def
  windows_def world0_def world_nogyp_def world_env_def parsed_none_def parsed_jobs0_def
  parsed_dry_def child_fails_def child_succeeds_def


section \<open>Default directories and the library directory\<close>

text \<open>
  Claim C7. On a platform that is not Windows \<^verbatim>\<open>getDefaultLibDir\<close> returns
  \<^verbatim>\<open>/usr/local/lib\<close> and \<^verbatim>\<open>getDefaultIncludeDirs\<close> returns the two directories
  \<^verbatim>\<open>/usr/local/include\<close> and \<^verbatim>\<open>/usr/local/include/opencv4\<close>, in this order. On Windows
  both throw instead of returning a value; the error they throw, which the specification
  calls a configuration error, is a plain \<^verbatim>\<open>Error\<close> that names the variable to define.
\<close>

theorem default_dirs:
  "(\<not> isWin P \<longrightarrow>
      fst (getDefaultLibDir P w) = Inr ''/usr/local/lib'' \<and>
      fst (getDefaultIncludeDirs P w) = Inr [''/usr/local/include'', ''/usr/local/include/opencv4'']) \<and>
   (isWin P \<longrightarrow>
      fst (getDefaultLibDir P w)
        = Inl (Error ''OPENCV_LIB_DIR has to be defined on windows when auto build is disabled'') \<and>
      fst (getDefaultIncludeDirs P w)
        = Inl (Error ''OPENCV_INCLUDE_DIR has to be defined on windows when auto build is disabled''))"
  by (simp add: getDefaultLibDir_def getDefaultIncludeDirs_def io_defs default_dir_defs)

theorem default_dirs_witness:
  "\<not> isWin posix \<and> isWin windows \<and>
   fst (getDefaultLibDir posix world0) = Inr ''/usr/local/lib'' \<and>
   fst (getDefaultIncludeDirs posix world0) = Inr [''/usr/local/include'', ''/usr/local/include/opencv4''] \<and>
   fst (getDefaultLibDir windows world0)
     = Inl (Error ''OPENCV_LIB_DIR has to be defined on windows when auto build is disabled'') \<and>
   fst (getDefaultIncludeDirs windows world0)
     = Inl (Error ''OPENCV_INCLUDE_DIR has to be defined on windows when auto build is disabled'')"
  using default_dirs [of posix world0] default_dirs [of windows world0]
  by (simp add: posix_def windows_def)

text \<open>
  Claim C8. With auto-build disabled, \<^verbatim>\<open>getLibDir\<close> returns the resolved value of the
  environment variable \<^verbatim>\<open>OPENCV_LIB_DIR\<close> when the variable is set, not empty, and
  resolves to a non-empty path; otherwise it behaves as \<^verbatim>\<open>getDefaultLibDir\<close>. With
  auto-build enabled it returns the resolved library directory of the builder, and throws
  \<^verbatim>\<open>failed to resolve opencvLibDir path\<close> when that directory does not resolve to a
  non-empty path.
\<close>

theorem getLibDir_cases:
  "(isAutoBuildDisabled env \<and> process_env w ''OPENCV_LIB_DIR'' = Some s \<and> s \<noteq> [] \<and> path_resolve P s \<noteq> []
      \<longrightarrow> fst (getLibDir P env w) = Inr (path_resolve P s)) \<and>
   (isAutoBuildDisabled env \<and> resolvePath P (process_env w ''OPENCV_LIB_DIR'') = []
      \<longrightarrow> getLibDir P env w = getDefaultLibDir P w) \<and>
   (\<not> isAutoBuildDisabled env \<and> opencvLibDir env = Some d \<and> d \<noteq> [] \<and> path_resolve P d \<noteq> []
      \<longrightarrow> getLibDir P env w = (Inr (path_resolve P d), w)) \<and>
   (\<not> isAutoBuildDisabled env \<and> resolvePath P (opencvLibDir env) = []
      \<longrightarrow> getLibDir P env w = (Inl (Error ''failed to resolve opencvLibDir path''), w))"
  by (simp add: getLibDir_def resolvePath_def io_defs)

theorem getLibDir_cases_witness:
  "fst (getLibDir posix env_system world_env) = Inr ''/opt/lib'' \<and>
   fst (getLibDir posix env_system world0) = Inr ''/usr/local/lib'' \<and>
   fst (getLibDir windows env_system world0)
     = Inl (Error ''OPENCV_LIB_DIR has to be defined on windows when auto build is disabled'') \<and>
   getLibDir posix env_autobuild world0 = (Inr ''/b/lib'', world0) \<and>
   getLibDir posix env_unresolved world0 = (Inl (Error ''failed to resolve opencvLibDir path''), world0)"
  using getLibDir_cases [of env_system world_env "''/opt/lib''" posix]
        getLibDir_cases [of env_system world0 _ posix]
        getLibDir_cases [of env_system world0 _ windows]
        getLibDir_cases [of env_autobuild _ _ posix "''/b/lib''" ]
        getLibDir_cases [of env_unresolved world0 _ posix]
  by (simp add: posix_def windows_def env_system_def env_autobuild_def env_unresolved_def
        world_env_def world0_def resolvePath_def getDefaultLibDir_def io_defs default_dir_defs)


section \<open>Derived flags\<close>

text \<open>
  Claim C4. For every library directory and every sequence of modules, the link arguments
  returned off Windows are \<^verbatim>\<open>-L\<close> followed by the directory, then one
  \<^verbatim>\<open>-lopencv_\<close> token per module in the order of the modules, then one closing
  \<^verbatim>\<open>-Wl,-rpath,\<close> token followed by the directory. On Windows the result has exactly one
  token per module and nothing else: the resolved library path of that module, which for a
  module that was found is the normalised form of its path.
\<close>

theorem libraries_tokens:
  "(\<not> isWin P \<longrightarrow>
      fst (getOPENCV4NODEJS_LIBRARIES P libDir libs w)
        = Inr ((''-L'' @ libDir) # map (\<lambda>lib. ''-lopencv_'' @ opencvModule lib) libs
               @ [''-Wl,-rpath,'' @ libDir])) \<and>
   (isWin P \<longrightarrow>
      fst (getOPENCV4NODEJS_LIBRARIES P libDir libs w)
        = Inr (map (\<lambda>lib. resolvePath P (libPath lib)) libs) \<and>
      (\<forall>toks. fst (getOPENCV4NODEJS_LIBRARIES P libDir libs w) = Inr toks
          \<longrightarrow> length toks = length libs) \<and>
      (\<forall>lib \<in> set libs. \<forall>p. libPath lib = Some p \<and> p \<noteq> []
          \<longrightarrow> resolvePath P (libPath lib) = path_resolve P p))"
  by (auto simp add: getOPENCV4NODEJS_LIBRARIES_def resolvePath_def io_defs Let_def)

theorem libraries_tokens_witness:
  "\<not> isWin posix \<and> isWin windows \<and>
   fst (getOPENCV4NODEJS_LIBRARIES posix ''/usr/local/lib'' [mod_core, mod_imgproc] world0)
     = Inr [''-L/usr/local/lib'', ''-lopencv_core'', ''-lopencv_imgproc'', ''-Wl,-rpath,/usr/local/lib''] \<and>
   fst (getOPENCV4NODEJS_LIBRARIES windows ''/usr/local/lib'' [mod_core, mod_imgproc] world0)
     = Inr [''/usr/local/lib/libopencv_core.so'', ''/usr/local/lib/libopencv_imgproc.so'']"
  using libraries_tokens [of posix "''/usr/local/lib''" "[mod_core, mod_imgproc]" world0]
        libraries_tokens [of windows "''/usr/local/lib''" "[mod_core, mod_imgproc]" world0]
  by (simp add: posix_def windows_def mod_core_def mod_imgproc_def resolvePath_def)

text \<open>
  Claim C5. For every sequence of modules the defines are, in the order of the modules,
  one token per module: \<^verbatim>\<open>OPENCV4NODEJS_FOUND_LIBRARY_\<close> followed by the module name in
  upper case. The number of defines is the number of modules.
\<close>

theorem defines_tokens:
  "fst (getOPENCV4NODEJS_DEFINES P libs w)
     = Inr (map (\<lambda>lib. ''OPENCV4NODEJS_FOUND_LIBRARY_'' @ toUpperCase (opencvModule lib)) libs) \<and>
   (\<forall>defs. fst (getOPENCV4NODEJS_DEFINES P libs w) = Inr defs \<longrightarrow> length defs = length libs)"
  by (auto simp add: getOPENCV4NODEJS_DEFINES_def io_defs Let_def)

theorem defines_tokens_witness:
  "fst (getOPENCV4NODEJS_DEFINES posix [mod_core, mod_imgproc] world0)
     = Inr [''OPENCV4NODEJS_FOUND_LIBRARY_CORE'', ''OPENCV4NODEJS_FOUND_LIBRARY_IMGPROC''] \<and>
   length [''OPENCV4NODEJS_FOUND_LIBRARY_CORE'', ''OPENCV4NODEJS_FOUND_LIBRARY_IMGPROC'']
     = length [mod_core, mod_imgproc]"
  using defines_tokens [of posix "[mod_core, mod_imgproc]" world0]
  by (simp add: mod_core_def mod_imgproc_def toUpperCase_def char_upper_def)

text \<open>
  Claim C6. With auto-build disabled the includes are the one resolved value of
  \<^verbatim>\<open>OPENCV_INCLUDE_DIR\<close> when that variable is set, not empty, and resolves to a non-empty
  path; otherwise they are the default include directories of the platform, which exist
  off Windows only. With auto-build enabled they are the two resolved include directories
  of the builder, the base one first and the \<^verbatim>\<open>opencv4\<close> one second.
\<close>

theorem includes_cases:
  "(isAutoBuildDisabled env \<and> process_env w ''OPENCV_INCLUDE_DIR'' = Some s \<and> s \<noteq> []
      \<and> path_resolve P s \<noteq> []
      \<longrightarrow> fst (getOPENCV4NODEJS_INCLUDES P env libs w) = Inr [path_resolve P s]) \<and>
   (isAutoBuildDisabled env \<and> resolvePath P (process_env w ''OPENCV_INCLUDE_DIR'') = [] \<and> \<not> isWin P
      \<longrightarrow> fst (getOPENCV4NODEJS_INCLUDES P env libs w)
            = Inr [''/usr/local/include'', ''/usr/local/include/opencv4'']) \<and>
   (isAutoBuildDisabled env \<and> resolvePath P (process_env w ''OPENCV_INCLUDE_DIR'') = [] \<and> isWin P
      \<longrightarrow> fst (getOPENCV4NODEJS_INCLUDES P env libs w)
            = Inl (Error ''OPENCV_INCLUDE_DIR has to be defined on windows when auto build is disabled'')) \<and>
   (\<not> isAutoBuildDisabled env
      \<longrightarrow> fst (getOPENCV4NODEJS_INCLUDES P env libs w)
            = Inr [resolvePath P (opencvInclude env), resolvePath P (opencv4Include env)])"
  by (auto simp add: getOPENCV4NODEJS_INCLUDES_def getDefaultIncludeDirs_def resolvePath_def
        truthy_str_def io_defs default_dir_defs Let_def split: option.splits)

theorem includes_cases_witness:
  "fst (getOPENCV4NODEJS_INCLUDES posix env_system [mod_core] world_env) = Inr [''/opt/include''] \<and>
   fst (getOPENCV4NODEJS_INCLUDES posix env_system [mod_core] world0)
     = Inr [''/usr/local/include'', ''/usr/local/include/opencv4''] \<and>
   fst (getOPENCV4NODEJS_INCLUDES windows env_system [mod_core] world0)
     = Inl (Error ''OPENCV_INCLUDE_DIR has to be defined on windows when auto build is disabled'') \<and>
   fst (getOPENCV4NODEJS_INCLUDES posix env_autobuild [mod_core] world0)
     = Inr [''/b/include'', ''/b/include/opencv4'']"
  using includes_cases [of env_system world_env "''/opt/include''" posix "[mod_core]"]
        includes_cases [of env_system world0 _ posix "[mod_core]"]
        includes_cases [of env_system world0 _ windows "[mod_core]"]
        includes_cases [of env_autobuild world0 _ posix "[mod_core]"]
  by (simp add: posix_def windows_def env_system_def env_autobuild_def world_env_def world0_def
        resolvePath_def)


section \<open>Enumeration of the libraries\<close>

lemma count_list_filter:
  "count_list (filter Q xs) x = (if Q x then count_list xs x else 0)"
  by (induction xs) auto

text \<open>
  Claim C9. Whatever the builder lists, a returned enumeration is not empty, is a
  subsequence of the listing (same order), holds only modules with a library path, holds
  each such module as often as the listing does, and is left unchanged by filtering again.
  When the listing has a module with a library path the enumeration is returned; when it
  has none, \<^verbatim>\<open>compileLib\<close> throws \<^verbatim>\<open>no OpenCV libraries found in lib dir\<close>. A library
  path counts as present when it is a non-empty string.
\<close>

theorem enumerate_found:
  "(\<forall>found. fst (compileLib_libsFoundInDir P builder libDir w) = Inr found \<longrightarrow>
      found \<noteq> [] \<and>
      subseq found (getLibs builder (files w)) \<and>
      (\<forall>lib \<in> set found. truthy_str (libPath lib)) \<and>
      (\<forall>lib. truthy_str (libPath lib)
          \<longrightarrow> count_list found lib = count_list (getLibs builder (files w)) lib) \<and>
      filter (\<lambda>lib. truthy_str (libPath lib)) found = found) \<and>
   ((\<exists>lib \<in> set (getLibs builder (files w)). truthy_str (libPath lib))
      \<longrightarrow> fst (compileLib_libsFoundInDir P builder libDir w)
            = Inr (filter (\<lambda>lib. truthy_str (libPath lib)) (getLibs builder (files w)))) \<and>
   ((\<forall>lib \<in> set (getLibs builder (files w)). \<not> truthy_str (libPath lib))
      \<longrightarrow> fst (compileLib_libsFoundInDir P builder libDir w)
            = Inl (Error (''no OpenCV libraries found in lib dir: '' @ libDir)))"
proof -
  let ?all = "getLibs builder (files w)"
  let ?found = "filter (\<lambda>lib. truthy_str (libPath lib)) ?all"
  have run: "fst (compileLib_libsFoundInDir P builder libDir w)
      = (if ?found = [] then Inl (Error (''no OpenCV libraries found in lib dir: '' @ libDir))
         else Inr ?found)"
    by (simp add: compileLib_libsFoundInDir_def io_defs Let_def)
  have empty_iff: "?found = [] \<longleftrightarrow> (\<forall>lib \<in> set ?all. \<not> truthy_str (libPath lib))"
    by (simp add: filter_empty_conv)
  have sub: "subseq ?found ?all"
    by simp
  have cnt: "\<forall>lib. truthy_str (libPath lib) \<longrightarrow> count_list ?found lib = count_list ?all lib"
    by (simp add: count_list_filter)
  show ?thesis
    using run empty_iff sub cnt by (auto split: if_splits)
qed

theorem enumerate_found_witness:
  "fst (compileLib_libsFoundInDir posix builder_system ''/usr/local/lib'' world0)
     = Inr [mod_core, mod_imgproc] \<and>
   subseq [mod_core, mod_imgproc] (getLibs builder_system (files world0)) \<and>
   fst (compileLib_libsFoundInDir posix builder_nolibs ''/usr/local/lib'' world0)
     = Inl (Error ''no OpenCV libraries found in lib dir: /usr/local/lib'')"
  using enumerate_found [of posix builder_system "''/usr/local/lib''" world0]
        enumerate_found [of posix builder_nolibs "''/usr/local/lib''" world0]
  by (simp add: builder_system_def builder_nolibs_def mod_core_def mod_cudev_def mod_imgproc_def
        truthy_str_def)


section \<open>The command line of the native build\<close>

text \<open>
  Claim C10, as stated, fails: \<^verbatim>\<open>--jobs 0\<close> is parsed to the number 0, so the flag is
  given and its value is 0, yet the test \<^verbatim>\<open>if (parsed.jobs)\<close> is false for 0 and the
  command that is started carries \<^verbatim>\<open>--jobs max\<close>.
\<close>

theorem jobs_zero_counterexample:
  "parsed_jobs parsed_jobs0 = Prim (PNum 0) \<and> parsed_j parsed_jobs0 = Undefined \<and>
   to_string (parsed_jobs parsed_jobs0) = ''0'' \<and>
   compileLib posix [''build''] parsed_jobs0 world0
     = (Inr (), snd (compileLib posix [''build''] parsed_jobs0 world0)) \<and>
   spawned (snd (compileLib posix [''build''] parsed_jobs0 world0))
     = [(''node-gyp rebuild  --jobs max'', ''/pkg'')]"
  by (simp add: digits.simps io_defs default_dir_defs derive_defs compileLib_defs example_defs)

text \<open>
  Claim C10, amended. The flags always end with \<^verbatim>\<open>--jobs N\<close>, after \<^verbatim>\<open>--debug\<close> when
  \<^verbatim>\<open>BINDINGS_DEBUG\<close> is set and not empty, and so does the command line. \<^verbatim>\<open>N\<close> is
  \<^verbatim>\<open>max\<close> when neither \<^verbatim>\<open>parsed.jobs\<close> nor \<^verbatim>\<open>parsed.j\<close> is truthy, the value of
  \<^verbatim>\<open>parsed.jobs\<close> when only that one is truthy, and the value of \<^verbatim>\<open>parsed.j\<close> whenever
  that is truthy. A flag whose parsed value is 0, the empty string or \<^verbatim>\<open>false\<close> counts
  as not given.
\<close>

theorem jobs_flag:
  "compileLib_flags (compileLib_JOBS parsed) w
     = (Inr ((if truthy_str (process_env w ''BINDINGS_DEBUG'') then '' --debug'' else [])
             @ '' --jobs '' @ to_string (compileLib_JOBS parsed)), w) \<and>
   (\<forall>flags. fst (compileLib_flags (compileLib_JOBS parsed) w) = Inr flags
       \<longrightarrow> suffix ('' --jobs '' @ to_string (compileLib_JOBS parsed)) (nodegypCmd flags)) \<and>
   (\<not> truthy (parsed_jobs parsed) \<and> \<not> truthy (parsed_j parsed)
       \<longrightarrow> compileLib_JOBS parsed = Prim (PStr ''max'')) \<and>
   (truthy (parsed_jobs parsed) \<and> \<not> truthy (parsed_j parsed)
       \<longrightarrow> compileLib_JOBS parsed = parsed_jobs parsed) \<and>
   (truthy (parsed_j parsed) \<longrightarrow> compileLib_JOBS parsed = parsed_j parsed)"
  by (auto simp add: compileLib_JOBS_def compileLib_flags_def nodegypCmd_def io_defs Let_def
        suffix_def)

theorem jobs_flag_witness:
  "compileLib_flags (compileLib_JOBS parsed_none) world0 = (Inr '' --jobs max'', world0) \<and>
   compileLib_flags (compileLib_JOBS (parsed_none\<lparr>parsed_jobs := Prim (PNum 4)\<rparr>)) world0
     = (Inr '' --jobs 4'', world0) \<and>
   compileLib_flags (compileLib_JOBS (parsed_none\<lparr>parsed_jobs := Prim (PNum 4),
        parsed_j := Prim (PNum 2)\<rparr>)) world0
     = (Inr '' --jobs 2'', world0)"
  using jobs_flag [of parsed_none world0]
        jobs_flag [of "parsed_none\<lparr>parsed_jobs := Prim (PNum 4)\<rparr>" world0]
        jobs_flag [of "parsed_none\<lparr>parsed_jobs := Prim (PNum 4), parsed_j := Prim (PNum 2)\<rparr>" world0]
  by (simp add: parsed_none_def world0_def truthy_str_def num_to_string_def digits.simps digit_def
        compileLib_JOBS_def Let_def)


section \<open>The run of compileLib\<close>

text \<open>
  On a build invocation \<^verbatim>\<open>compileLib\<close> is its preparation (lines 117 to 143) followed by
  the flags, the staging of the descriptor file, the log line and the last step.
\<close>

lemma compileLib_after_prepare:
  assumes "''build'' \<in> set args" "\<not> truthy (parsed_help parsed)" "\<not> truthy (parsed_h parsed)"
  shows "compileLib P args parsed w =
     (case compileLib_prepare P parsed w of
        (Inl e, w1) \<Rightarrow> (Inl e, w1)
      | (Inr vars, w1) \<Rightarrow>
          compileLib_run P (compileLib_dryRun parsed) vars
            (''node-gyp rebuild ''
               @ (if truthy_str (process_env w1 ''BINDINGS_DEBUG'') then '' --debug'' else [])
               @ '' --jobs '' @ to_string (compileLib_JOBS parsed))
            (w1\<lparr>files := (if hidenGyp P \<in> files w1 then insert (realGyp P) (files w1)
                           else files w1),
                trace := trace w1 @
                  [LogInfo ''install''
                     (''Spawning in '' @ cwd P @ '' node gyp process: '' @ ''node-gyp rebuild ''
                        @ (if truthy_str (process_env w1 ''BINDINGS_DEBUG'') then '' --debug'' else [])
                        @ '' --jobs '' @ to_string (compileLib_JOBS parsed)) []]\<rparr>))"
  using assms
  by (simp add: compileLib_def compileLib_flags_def compileLib_stage_def nodegypCmd_def io_defs
        Let_def split: prod.splits sum.splits)

text \<open>No step before the last one starts a child.\<close>

lemma spawned_bind:
  assumes "\<And>w. spawned (snd (m w)) = spawned w"
      and "\<And>x w. spawned (snd (f x w)) = spawned w"
  shows "spawned (snd (io_bind m f w)) = spawned w"
proof (cases "m w")
  case (Pair r w')
  have w': "spawned w' = spawned w"
    using assms(1) [of w] Pair by simp
  show ?thesis
  proof (cases r)
    case (Inl e)
    with Pair w' show ?thesis by (simp add: io_bind_def)
  next
    case (Inr x)
    with Pair w' assms(2) [of x w'] show ?thesis by (simp add: io_bind_def)
  qed
qed

lemma spawned_getLibDir: "spawned (snd (getLibDir P env w)) = spawned w"
  by (simp add: getLibDir_def getDefaultLibDir_def io_defs Let_def)

lemma spawned_builder_install: "spawned (snd (builder_install b w)) = spawned w"
  by (simp add: builder_install_def split: sum.splits)

lemma spawned_libDir: "spawned (snd (compileLib_libDir P b w)) = spawned w"
  unfolding compileLib_libDir_def
  by (intro spawned_bind spawned_getLibDir)
     (simp_all add: spawned_builder_install log_info_def emit_def existsSync_def io_return_def
        io_throw_def)

lemma spawned_libsFoundInDir: "spawned (snd (compileLib_libsFoundInDir P b d w)) = spawned w"
  by (simp add: compileLib_libsFoundInDir_def io_defs Let_def)

lemma spawned_DEFINES: "spawned (snd (getOPENCV4NODEJS_DEFINES P libs w)) = spawned w"
  by (simp add: getOPENCV4NODEJS_DEFINES_def io_defs Let_def)

lemma spawned_LIBRARIES: "spawned (snd (getOPENCV4NODEJS_LIBRARIES P d libs w)) = spawned w"
  by (simp add: getOPENCV4NODEJS_LIBRARIES_def io_defs Let_def)

lemma spawned_INCLUDES: "spawned (snd (getOPENCV4NODEJS_INCLUDES P env libs w)) = spawned w"
  by (simp add: getOPENCV4NODEJS_INCLUDES_def getDefaultIncludeDirs_def io_defs Let_def)

lemma spawned_exports: "spawned (snd (compileLib_exports P b d libs w)) = spawned w"
  unfolding compileLib_exports_def
  by (intro spawned_bind spawned_DEFINES spawned_INCLUDES spawned_LIBRARIES)
     (simp add: setenv_def io_bind_def io_return_def Let_def)

lemma spawned_prepare: "spawned (snd (compileLib_prepare P parsed w)) = spawned w"
  unfolding compileLib_prepare_def
  by (intro spawned_bind spawned_libDir spawned_libsFoundInDir spawned_exports)
     (simp_all add: log_info_def emit_def)

lemma truthy_dryRun:
  "truthy (compileLib_dryRun parsed)
     \<longleftrightarrow> truthy (parsed_dryrun parsed) \<or> truthy (parsed_dry_run parsed)"
  by (simp add: compileLib_dryRun_def js_or_def)

text \<open>
  Claim C3. On a build invocation with \<^verbatim>\<open>parsed.dryrun\<close> or \<^verbatim>\<open>parsed['dry-run']\<close> truthy,
  \<^verbatim>\<open>compileLib\<close> starts no child, whatever happens, and the callback that deletes the
  descriptor file never runs: the invocation is \<^verbatim>\<open>compileLib\<close> alone. An error of the
  preparation is thrown as it is. When the preparation succeeds, \<^verbatim>\<open>compileLib\<close> returns
  without error; \<^verbatim>\<open>_binding.gyp\<close> has been copied to \<^verbatim>\<open>binding.gyp\<close> when it exists, no
  file has been removed, and the output ends with an empty line, the three export lines,
  an empty line, the command line and an empty line.
\<close>

theorem dry_run:
  assumes "''build'' \<in> set args" "\<not> truthy (parsed_help parsed)" "\<not> truthy (parsed_h parsed)"
      and "truthy (parsed_dryrun parsed) \<or> truthy (parsed_dry_run parsed)"
  shows "spawned (snd (compileLib P args parsed w)) = spawned w \<and>
         invocation P args parsed child w = compileLib P args parsed w \<and>
         (\<forall>e w1. compileLib_prepare P parsed w = (Inl e, w1)
            \<longrightarrow> compileLib P args parsed w = (Inl e, w1)) \<and>
         (\<forall>D I L w1. compileLib_prepare P parsed w = (Inr (D, I, L), w1)
            \<longrightarrow> compileLib P args parsed w =
                 (Inr (),
                  w1\<lparr>files := (if hidenGyp P \<in> files w1 then insert (realGyp P) (files w1)
                                else files w1),
                     trace := trace w1 @
                       [LogInfo ''install''
                          (''Spawning in '' @ cwd P @ '' node gyp process: '' @ ''node-gyp rebuild ''
                             @ (if truthy_str (process_env w1 ''BINDINGS_DEBUG'') then '' --debug'' else [])
                             @ '' --jobs '' @ to_string (compileLib_JOBS parsed)) [],
                        ConsoleLog [],
                        ConsoleLog (''export OPENCV4NODEJS_DEFINES='' @ [CHR 0x22] @ D @ [CHR 0x22]),
                        ConsoleLog (''export OPENCV4NODEJS_INCLUDES='' @ [CHR 0x22] @ I @ [CHR 0x22]),
                        ConsoleLog (''export OPENCV4NODEJS_LIBRARIES='' @ [CHR 0x22] @ L @ [CHR 0x22]),
                        ConsoleLog [],
                        ConsoleLog (''node-gyp rebuild ''
                             @ (if truthy_str (process_env w1 ''BINDINGS_DEBUG'') then '' --debug'' else [])
                             @ '' --jobs '' @ to_string (compileLib_JOBS parsed)),
                        ConsoleLog []]\<rparr>))"
proof -
  have dry: "truthy (compileLib_dryRun parsed)"
    using assms(4) by (simp add: truthy_dryRun)
  note step = compileLib_after_prepare [OF assms(1-3), of P w]
  have prep: "spawned (snd (compileLib_prepare P parsed w)) = spawned w"
    by (rule spawned_prepare)
  have keeps: "spawned (snd (compileLib P args parsed w)) = spawned w"
    using prep dry
    by (cases "compileLib_prepare P parsed w")
       (auto simp add: step compileLib_run_def emit_def split: sum.splits prod.splits)
  have inv: "invocation P args parsed child w = compileLib P args parsed w"
    using keeps
    by (cases "compileLib P args parsed w") (auto simp add: invocation_def split: sum.splits)
  have fails: "\<forall>e w1. compileLib_prepare P parsed w = (Inl e, w1)
      \<longrightarrow> compileLib P args parsed w = (Inl e, w1)"
    by (simp add: step)
  have prints: "\<forall>D I L w1. compileLib_prepare P parsed w = (Inr (D, I, L), w1)
      \<longrightarrow> compileLib P args parsed w =
           (Inr (),
            w1\<lparr>files := (if hidenGyp P \<in> files w1 then insert (realGyp P) (files w1)
                          else files w1),
               trace := trace w1 @
                 [LogInfo ''install''
                    (''Spawning in '' @ cwd P @ '' node gyp process: '' @ ''node-gyp rebuild ''
                       @ (if truthy_str (process_env w1 ''BINDINGS_DEBUG'') then '' --debug'' else [])
                       @ '' --jobs '' @ to_string (compileLib_JOBS parsed)) [],
                  ConsoleLog [],
                  ConsoleLog (''export OPENCV4NODEJS_DEFINES='' @ [CHR 0x22] @ D @ [CHR 0x22]),
                  ConsoleLog (''export OPENCV4NODEJS_INCLUDES='' @ [CHR 0x22] @ I @ [CHR 0x22]),
                  ConsoleLog (''export OPENCV4NODEJS_LIBRARIES='' @ [CHR 0x22] @ L @ [CHR 0x22]),
                  ConsoleLog [],
                  ConsoleLog (''node-gyp rebuild ''
                       @ (if truthy_str (process_env w1 ''BINDINGS_DEBUG'') then '' --debug'' else [])
                       @ '' --jobs '' @ to_string (compileLib_JOBS parsed)),
                  ConsoleLog []]\<rparr>)"
    using dry by (simp add: step compileLib_run_def emit_def)
  show ?thesis
    using keeps inv fails prints by blast
qed

theorem dry_run_witness:
  "''build'' \<in> set [''build''] \<and> \<not> truthy (parsed_help parsed_dry) \<and> \<not> truthy (parsed_h parsed_dry) \<and>
   truthy (parsed_dry_run parsed_dry) \<and>
   fst (compileLib posix [''build''] parsed_dry world0) = Inr () \<and>
   spawned (snd (compileLib posix [''build''] parsed_dry world0)) = [] \<and>
   ''/pkg/binding.gyp'' \<in> files (snd (compileLib posix [''build''] parsed_dry world0)) \<and>
   invocation posix [''build''] parsed_dry child_fails world0
     = compileLib posix [''build''] parsed_dry world0 \<and>
   (\<exists>evs. trace (snd (compileLib posix [''build''] parsed_dry world0))
     = evs @
       [ConsoleLog [],
        ConsoleLog (''export OPENCV4NODEJS_DEFINES='' @ [CHR 0x22]
          @ ''OPENCV4NODEJS_FOUND_LIBRARY_CORE;OPENCV4NODEJS_FOUND_LIBRARY_IMGPROC'' @ [CHR 0x22]),
        ConsoleLog (''export OPENCV4NODEJS_INCLUDES='' @ [CHR 0x22]
          @ ''/usr/local/include;/usr/local/include/opencv4'' @ [CHR 0x22]),
        ConsoleLog (''export OPENCV4NODEJS_LIBRARIES='' @ [CHR 0x22]
          @ ''-L/usr/local/lib;-lopencv_core;-lopencv_imgproc;-Wl,-rpath,/usr/local/lib'' @ [CHR 0x22]),
        ConsoleLog [],
        ConsoleLog ''node-gyp rebuild  --jobs 4'',
        ConsoleLog []])"
proof -
  have h1: "''build'' \<in> set [''build'']"
    by simp
  have h2: "\<not> truthy (parsed_help parsed_dry)" and h3: "\<not> truthy (parsed_h parsed_dry)"
    by (simp_all add: parsed_dry_def parsed_none_def)
  have h4: "truthy (parsed_dry_run parsed_dry)"
    by (simp add: parsed_dry_def parsed_none_def)
  have h4': "truthy (parsed_dryrun parsed_dry) \<or> truthy (parsed_dry_run parsed_dry)"
    using h4 by simp
  note run = dry_run [OF h1 h2 h3 h4', of posix world0 child_fails]
  have "\<exists>w1. compileLib_prepare posix parsed_dry world0
        = (Inr (''OPENCV4NODEJS_FOUND_LIBRARY_CORE;OPENCV4NODEJS_FOUND_LIBRARY_IMGPROC'',
                ''/usr/local/include;/usr/local/include/opencv4'',
                ''-L/usr/local/lib;-lopencv_core;-lopencv_imgproc;-Wl,-rpath,/usr/local/lib''), w1) \<and>
      hidenGyp posix \<in> files w1 \<and> process_env w1 ''BINDINGS_DEBUG'' = None"
    by (simp add: io_defs default_dir_defs derive_defs compileLib_defs example_defs)
  then obtain w1 where prep: "compileLib_prepare posix parsed_dry world0
        = (Inr (''OPENCV4NODEJS_FOUND_LIBRARY_CORE;OPENCV4NODEJS_FOUND_LIBRARY_IMGPROC'',
                ''/usr/local/include;/usr/local/include/opencv4'',
                ''-L/usr/local/lib;-lopencv_core;-lopencv_imgproc;-Wl,-rpath,/usr/local/lib''), w1)"
      and gyp: "hidenGyp posix \<in> files w1"
      and dbg: "process_env w1 ''BINDINGS_DEBUG'' = None"
    by blast
  have jobs: "to_string (compileLib_JOBS parsed_dry) = ''4''"
    by (simp add: compileLib_JOBS_def parsed_dry_def parsed_none_def num_to_string_def
          digits.simps digit_def)
  have real: "realGyp posix = ''/pkg/binding.gyp''"
    by (simp add: realGyp_def path_join_def path_sep_def posix_def)
  from run prep have result: "compileLib posix [''build''] parsed_dry world0 =
      (Inr (),
       w1\<lparr>files := (if hidenGyp posix \<in> files w1 then insert (realGyp posix) (files w1)
                     else files w1),
          trace := trace w1 @
            [LogInfo ''install''
               (''Spawning in '' @ cwd posix @ '' node gyp process: '' @ ''node-gyp rebuild ''
                  @ (if truthy_str (process_env w1 ''BINDINGS_DEBUG'') then '' --debug'' else [])
                  @ '' --jobs '' @ to_string (compileLib_JOBS parsed_dry)) [],
             ConsoleLog [],
             ConsoleLog (''export OPENCV4NODEJS_DEFINES='' @ [CHR 0x22]
               @ ''OPENCV4NODEJS_FOUND_LIBRARY_CORE;OPENCV4NODEJS_FOUND_LIBRARY_IMGPROC'' @ [CHR 0x22]),
             ConsoleLog (''export OPENCV4NODEJS_INCLUDES='' @ [CHR 0x22]
               @ ''/usr/local/include;/usr/local/include/opencv4'' @ [CHR 0x22]),
             ConsoleLog (''export OPENCV4NODEJS_LIBRARIES='' @ [CHR 0x22]
               @ ''-L/usr/local/lib;-lopencv_core;-lopencv_imgproc;-Wl,-rpath,/usr/local/lib'' @ [CHR 0x22]),
             ConsoleLog [],
             ConsoleLog (''node-gyp rebuild ''
                  @ (if truthy_str (process_env w1 ''BINDINGS_DEBUG'') then '' --debug'' else [])
                  @ '' --jobs '' @ to_string (compileLib_JOBS parsed_dry)),
             ConsoleLog []]\<rparr>)"
    by blast
  have spawned0: "spawned (snd (compileLib posix [''build''] parsed_dry world0)) = []"
    using run by (simp add: world0_def)
  have inv: "invocation posix [''build''] parsed_dry child_fails world0
     = compileLib posix [''build''] parsed_dry world0"
    using run by blast
  show ?thesis
    using h1 h2 h3 h4 spawned0 inv
    by (simp add: result gyp dbg jobs real truthy_str_def)
qed



section \<open>Completion of the child\<close>

text \<open>
  Claim C1, as stated, fails: in a real run where the child ends with an error and
  \<^verbatim>\<open>binding.gyp\<close> exists, \<^verbatim>\<open>compileLib\<close> has returned normally and the callback only
  logs; no error reaches the top level and the invocation ends without one.
\<close>

theorem child_failure_counterexample:
  "''build'' \<in> set [''build''] \<and> \<not> truthy (parsed_help parsed_none) \<and>
   \<not> truthy (parsed_h parsed_none) \<and> \<not> truthy (compileLib_dryRun parsed_none) \<and>
   spawned (snd (compileLib posix [''build''] parsed_none world0))
     = [(''node-gyp rebuild  --jobs max'', ''/pkg'')] \<and>
   snd (child_fails (files (snd (compileLib posix [''build''] parsed_none world0))))
     = Some \<lparr>err_name = ''Error'', err_message = ''Command failed'', err_code = ''1''\<rparr> \<and>
   fst (compileLib posix [''build''] parsed_none world0) = Inr () \<and>
   fst (invocation posix [''build''] parsed_none child_fails world0) = Inr ()"
  by (simp add: io_defs default_dir_defs derive_defs compileLib_defs example_defs)


text \<open>
  Claim C1, amended. In a real run whose preparation succeeds, \<^verbatim>\<open>compileLib\<close> returns
  normally as soon as it has started the one child, before the child ends. When the child
  has completed, the callback runs on the files the child left. With \<^verbatim>\<open>binding.gyp\<close> in
  place, a failure of the child is printed and logged as an error line that carries the
  name, the message and the code of the child's error, a success is logged as an info
  line, and in both cases nothing is thrown: the invocation ends without error.
\<close>

theorem child_failure_logged:
  assumes "''build'' \<in> set args" "\<not> truthy (parsed_help parsed)" "\<not> truthy (parsed_h parsed)"
      and "\<not> truthy (parsed_dryrun parsed)" "\<not> truthy (parsed_dry_run parsed)"
  shows "(\<forall>vars w1. compileLib_prepare P parsed w = (Inr vars, w1)
            \<longrightarrow> (\<exists>w2. compileLib P args parsed w = (Inr (), w2) \<and>
                   spawned w2 = spawned w @
                     [(''node-gyp rebuild ''
                         @ (if truthy_str (process_env w1 ''BINDINGS_DEBUG'') then '' --debug'' else [])
                         @ '' --jobs '' @ to_string (compileLib_JOBS parsed), cwd P)] \<and>
                   (\<forall>fs outcome. child (files w2) = (fs, outcome)
                      \<longrightarrow> invocation P args parsed child w
                            = exec_callback P outcome (w2\<lparr>files := fs\<rparr>)) \<and>
                   (\<forall>fs outcome. child (files w2) = (fs, outcome) \<and> realGyp P \<in> fs
                      \<longrightarrow> fst (invocation P args parsed child w) = Inr ()))) \<and>
         (\<forall>e w'. realGyp P \<in> files w'
            \<longrightarrow> exec_callback P (Some e) w' =
                 (Inr (),
                  w'\<lparr>files := files w' - {realGyp P},
                     trace := trace w' @
                       [ConsoleLogError ''error: '' e,
                        LogError ''install''
                          (''install.ts failed and return '' @ err_name e @ '' '' @ err_message e
                           @ '' return code: '' @ err_code e)]\<rparr>)) \<and>
         (\<forall>w'. realGyp P \<in> files w'
            \<longrightarrow> exec_callback P None w' =
                 (Inr (),
                  w'\<lparr>files := files w' - {realGyp P},
                     trace := trace w' @ [LogInfo ''install'' ''install.ts complet with no error'' []]\<rparr>))"
proof -
  have real: "\<not> truthy (compileLib_dryRun parsed)"
    using assms(4,5) by (simp add: truthy_dryRun)
  note step = compileLib_after_prepare [OF assms(1-3), of P w]
  have failed: "\<forall>e w'. realGyp P \<in> files w'
      \<longrightarrow> exec_callback P (Some e) w' =
           (Inr (),
            w'\<lparr>files := files w' - {realGyp P},
               trace := trace w' @
                 [ConsoleLogError ''error: '' e,
                  LogError ''install''
                    (''install.ts failed and return '' @ err_name e @ '' '' @ err_message e
                     @ '' return code: '' @ err_code e)]\<rparr>)"
    by (simp add: exec_callback_def io_bind_def unlinkSync_def emit_def)
  have succeeded: "\<forall>w'. realGyp P \<in> files w'
      \<longrightarrow> exec_callback P None w' =
           (Inr (),
            w'\<lparr>files := files w' - {realGyp P},
               trace := trace w' @ [LogInfo ''install'' ''install.ts complet with no error'' []]\<rparr>)"
    by (simp add: exec_callback_def io_bind_def unlinkSync_def emit_def log_info_def)
  have started: "\<exists>w2. compileLib P args parsed w = (Inr (), w2) \<and>
         spawned w2 = spawned w @
           [(''node-gyp rebuild ''
               @ (if truthy_str (process_env w1 ''BINDINGS_DEBUG'') then '' --debug'' else [])
               @ '' --jobs '' @ to_string (compileLib_JOBS parsed), cwd P)] \<and>
         (\<forall>fs outcome. child (files w2) = (fs, outcome)
            \<longrightarrow> invocation P args parsed child w = exec_callback P outcome (w2\<lparr>files := fs\<rparr>)) \<and>
         (\<forall>fs outcome. child (files w2) = (fs, outcome) \<and> realGyp P \<in> fs
            \<longrightarrow> fst (invocation P args parsed child w) = Inr ())"
    if prep: "compileLib_prepare P parsed w = (Inr vars, w1)" for vars w1
  proof -
    have same: "spawned w1 = spawned w"
      using spawned_prepare [of P parsed w] prep by simp
    obtain w2 where ret: "compileLib P args parsed w = (Inr (), w2)"
      and sp: "spawned w2 = spawned w @
           [(''node-gyp rebuild ''
               @ (if truthy_str (process_env w1 ''BINDINGS_DEBUG'') then '' --debug'' else [])
               @ '' --jobs '' @ to_string (compileLib_JOBS parsed), cwd P)]"
      using real prep same
      by (cases vars) (simp add: step compileLib_run_def exec_def)
    have inv: "invocation P args parsed child w = exec_callback P outcome (w2\<lparr>files := fs\<rparr>)"
      if "child (files w2) = (fs, outcome)" for fs outcome
      using that ret sp by (simp add: invocation_def)
    have ok: "fst (invocation P args parsed child w) = Inr ()"
      if "child (files w2) = (fs, outcome)" "realGyp P \<in> fs" for fs outcome
    proof (cases outcome)
      case None
      with that succeeded show ?thesis by (simp add: inv)
    next
      case (Some e)
      with that failed show ?thesis by (simp add: inv)
    qed
    from ret sp inv ok show ?thesis by blast
  qed
  show ?thesis
    using started failed succeeded by blast
qed

theorem child_failure_logged_witness:
  "''build'' \<in> set [''build''] \<and> \<not> truthy (parsed_help parsed_none) \<and>
   \<not> truthy (parsed_h parsed_none) \<and> \<not> truthy (parsed_dryrun parsed_none) \<and>
   \<not> truthy (parsed_dry_run parsed_none) \<and>
   fst (compileLib posix [''build''] parsed_none world0) = Inr () \<and>
   spawned (snd (compileLib posix [''build''] parsed_none world0))
     = [(''node-gyp rebuild  --jobs max'', ''/pkg'')] \<and>
   fst (invocation posix [''build''] parsed_none child_fails world0) = Inr () \<and>
   fst (invocation posix [''build''] parsed_none child_succeeds world0) = Inr ()"
proof -
  have h1: "''build'' \<in> set [''build'']"
    by simp
  have h2: "\<not> truthy (parsed_help parsed_none)" and h3: "\<not> truthy (parsed_h parsed_none)"
    and h4: "\<not> truthy (parsed_dryrun parsed_none)" and h5: "\<not> truthy (parsed_dry_run parsed_none)"
    by (simp_all add: parsed_none_def)
  have "\<exists>vars w1. compileLib_prepare posix parsed_none world0 = (Inr vars, w1) \<and>
      hidenGyp posix \<in> files w1 \<and> process_env w1 ''BINDINGS_DEBUG'' = None"
    by (simp add: io_defs default_dir_defs derive_defs compileLib_defs example_defs)
  then obtain vars w1 where prep: "compileLib_prepare posix parsed_none world0 = (Inr vars, w1)"
      and dbg: "process_env w1 ''BINDINGS_DEBUG'' = None"
    by blast
  have jobs: "to_string (compileLib_JOBS parsed_none) = ''max''"
    by (simp add: compileLib_JOBS_def parsed_none_def)
  have staged: "realGyp posix \<in> files (snd (compileLib posix [''build''] parsed_none world0))"
    by (simp add: io_defs default_dir_defs derive_defs compileLib_defs example_defs)
  have run_f: "\<exists>w2. compileLib posix [''build''] parsed_none world0 = (Inr (), w2) \<and>
      spawned w2 = spawned world0 @
        [(''node-gyp rebuild ''
            @ (if truthy_str (process_env w1 ''BINDINGS_DEBUG'') then '' --debug'' else [])
            @ '' --jobs '' @ to_string (compileLib_JOBS parsed_none), cwd posix)] \<and>
      (\<forall>fs outcome. child_fails (files w2) = (fs, outcome) \<and> realGyp posix \<in> fs
         \<longrightarrow> fst (invocation posix [''build''] parsed_none child_fails world0) = Inr ())"
    using child_failure_logged [OF h1 h2 h3 h4 h5, of posix world0 child_fails] prep by blast
  have run_s: "\<exists>w2. compileLib posix [''build''] parsed_none world0 = (Inr (), w2) \<and>
      (\<forall>fs outcome. child_succeeds (files w2) = (fs, outcome) \<and> realGyp posix \<in> fs
         \<longrightarrow> fst (invocation posix [''build''] parsed_none child_succeeds world0) = Inr ())"
    using child_failure_logged [OF h1 h2 h3 h4 h5, of posix world0 child_succeeds] prep by blast
  from run_f obtain w2 where ret: "compileLib posix [''build''] parsed_none world0 = (Inr (), w2)"
      and sp: "spawned w2 = [(''node-gyp rebuild  --jobs max'', ''/pkg'')]"
      and inv_f: "\<forall>fs outcome. child_fails (files w2) = (fs, outcome) \<and> realGyp posix \<in> fs
         \<longrightarrow> fst (invocation posix [''build''] parsed_none child_fails world0) = Inr ()"
    by (auto simp add: dbg jobs truthy_str_def world0_def posix_def)
  from run_s ret have inv_s: "\<forall>fs outcome. child_succeeds (files w2) = (fs, outcome) \<and> realGyp posix \<in> fs
         \<longrightarrow> fst (invocation posix [''build''] parsed_none child_succeeds world0) = Inr ()"
    by simp
  have in2: "realGyp posix \<in> files w2"
    using staged ret by simp
  have "fst (invocation posix [''build''] parsed_none child_fails world0) = Inr ()"
    using inv_f in2 by (simp add: child_fails_def)
  moreover have "fst (invocation posix [''build''] parsed_none child_succeeds world0) = Inr ()"
    using inv_s in2 by (simp add: child_succeeds_def)
  ultimately show ?thesis
    using h1 h2 h3 h4 h5 ret sp by simp
qed


text \<open>
  Claim C2, as stated, fails: when neither \<^verbatim>\<open>_binding.gyp\<close> nor \<^verbatim>\<open>binding.gyp\<close> exists,
  the deletion in the callback throws. The error is not caught, so the invocation ends
  with it, and the callback logs nothing, not even the failure of the child.
\<close>

theorem unlink_failure_counterexample:
  "''build'' \<in> set [''build''] \<and> \<not> truthy (parsed_help parsed_none) \<and>
   \<not> truthy (parsed_h parsed_none) \<and> \<not> truthy (compileLib_dryRun parsed_none) \<and>
   fst (compileLib posix [''build''] parsed_none world_nogyp) = Inr () \<and>
   spawned (snd (compileLib posix [''build''] parsed_none world_nogyp))
     = [(''node-gyp rebuild  --jobs max'', ''/pkg'')] \<and>
   fst (invocation posix [''build''] parsed_none child_fails world_nogyp)
     = Inl (SystemError ''ENOENT'' ''/pkg/binding.gyp'') \<and>
   trace (snd (invocation posix [''build''] parsed_none child_fails world_nogyp))
     = trace (snd (compileLib posix [''build''] parsed_none world_nogyp))"
  by (simp add: io_defs default_dir_defs derive_defs compileLib_defs example_defs)


text \<open>
  Claim C2, amended. Whether the child failed or succeeded, the callback first tries to
  delete \<^verbatim>\<open>binding.gyp\<close>. When the file exists it is deleted and the callback goes on to
  report the outcome without throwing: for a failed child it prints the error object and
  logs one error line with the name, the message and the code of the error, for a
  successful child it logs one info line, and it does nothing else. When the deletion
  fails, the error is neither caught nor logged: the callback throws it and leaves the
  state as it was. Either way \<^verbatim>\<open>binding.gyp\<close> does not exist afterwards.
\<close>

theorem callback_unlinks:
  "(realGyp P \<in> files w \<longrightarrow>
      exec_callback P (Some e) w =
        (Inr (),
         w\<lparr>files := files w - {realGyp P},
           trace := trace w @
             [ConsoleLogError ''error: '' e,
              LogError ''install''
                (''install.ts failed and return '' @ err_name e @ '' '' @ err_message e
                 @ '' return code: '' @ err_code e)]\<rparr>) \<and>
      exec_callback P None w =
        (Inr (),
         w\<lparr>files := files w - {realGyp P},
           trace := trace w @ [LogInfo ''install'' ''install.ts complet with no error'' []]\<rparr>)) \<and>
   (realGyp P \<notin> files w \<longrightarrow>
      exec_callback P error w = (Inl (SystemError ''ENOENT'' (realGyp P)), w)) \<and>
   realGyp P \<notin> files (snd (exec_callback P error w))"
  by (cases error)
     (auto simp add: exec_callback_def io_bind_def unlinkSync_def emit_def log_info_def)

theorem callback_unlinks_witness:
  "realGyp posix \<in> files (world0\<lparr>files := insert ''/pkg/binding.gyp'' (files world0)\<rparr>) \<and>
   realGyp posix \<notin> files world_nogyp \<and>
   exec_callback posix
       (Some \<lparr>err_name = ''Error'', err_message = ''Command failed'', err_code = ''1''\<rparr>)
       (world0\<lparr>files := insert ''/pkg/binding.gyp'' (files world0)\<rparr>)
     = (Inr (),
        world0\<lparr>trace :=
          [ConsoleLogError ''error: ''
             \<lparr>err_name = ''Error'', err_message = ''Command failed'', err_code = ''1''\<rparr>,
           LogError ''install'' ''install.ts failed and return Error Command failed return code: 1'']\<rparr>) \<and>
   exec_callback posix None (world0\<lparr>files := insert ''/pkg/binding.gyp'' (files world0)\<rparr>)
     = (Inr (),
        world0\<lparr>trace := [LogInfo ''install'' ''install.ts complet with no error'' []]\<rparr>) \<and>
   exec_callback posix None world_nogyp
     = (Inl (SystemError ''ENOENT'' ''/pkg/binding.gyp''), world_nogyp) \<and>
   exec_callback posix
       (Some \<lparr>err_name = ''Error'', err_message = ''Command failed'', err_code = ''1''\<rparr>)
       world_nogyp
     = (Inl (SystemError ''ENOENT'' ''/pkg/binding.gyp''), world_nogyp)"
  using callback_unlinks [of posix "world0\<lparr>files := insert ''/pkg/binding.gyp'' (files world0)\<rparr>"
          "\<lparr>err_name = ''Error'', err_message = ''Command failed'', err_code = ''1''\<rparr>" None]
        callback_unlinks [of posix world_nogyp _ None]
        callback_unlinks [of posix world_nogyp _
          "Some \<lparr>err_name = ''Error'', err_message = ''Command failed'', err_code = ''1''\<rparr>"]
  by (auto simp add: realGyp_def path_join_def path_sep_def posix_def world0_def world_nogyp_def)

end
